theory Spec2Isabelle
  imports Main
begin

section \<open>JavaScript values\<close>

text \<open>
  The hub reads its frames with \<^verbatim>\<open>JSON.parse\<close> and answers with \<^verbatim>\<open>JSON.stringify\<close>.
  Scalars are the type \<open>prim\<close>; \<open>js\<close> adds arrays and objects on top. Strings are
  kept as their UTF-8 bytes, which is what \<^verbatim>\<open>Buffer.from\<close> reads; numbers are the
  integers. The \<^verbatim>\<open>type\<close> of a frame is any value. The fields the hub reads from the
  \<^verbatim>\<open>data\<close> of a frame (\<^verbatim>\<open>name\<close>, \<^verbatim>\<open>token\<close>, \<^verbatim>\<open>serverName\<close>) are scalars:
  such a field holding an array or an object, and a number that is not an integer, are
  not part of this model.
\<close>

datatype prim = Undefined | Null | Bool bool | Num int | Str string

datatype js = Prim prim | Arr "js list" | Obj "(string \<times> js) list"

datatype exn = SyntaxError | TypeError | RangeError

text \<open>Truthiness of a scalar, as \<^verbatim>\<open>!x\<close> and \<^verbatim>\<open>x || y\<close> read it.\<close>

fun truthy :: "prim \<Rightarrow> bool" where
  "truthy Undefined = False"
| "truthy Null = False"
| "truthy (Bool b) = b"
| "truthy (Num n) = (n \<noteq> 0)"
| "truthy (Str s) = (s \<noteq> [])"

text \<open>Decimal digits of a number, most significant first.\<close>

fun digits :: "nat \<Rightarrow> string" where
  "digits n = (if n < 10 then [''0123456789'' ! n]
               else digits (n div 10) @ [''0123456789'' ! (n mod 10)])"

declare digits.simps [simp del]

definition Number_toString :: "int \<Rightarrow> string" where
  "Number_toString n = (if n < 0 then CHR ''-'' # digits (nat (- n)) else digits (nat n))"

text \<open>
  \<^verbatim>\<open>String(x)\<close>, which a template literal and a property access apply to a scalar.
  (JavaScript prints an integer in these digits up to \<open>2^53\<close>; beyond, it rounds the
  digits and from \<open>10^21\<close> it writes an exponent, so that the text printed here for
  such a number is not the program's. No text of that kind is the name of a property of
  the table of message kinds, here or there.)
\<close>

fun ToString :: "prim \<Rightarrow> string" where
  "ToString Undefined = ''undefined''"
| "ToString Null = ''null''"
| "ToString (Bool b) = (if b then ''true'' else ''false'')"
| "ToString (Num n) = Number_toString n"
| "ToString (Str s) = s"

text \<open>
  \<^verbatim>\<open>String(v)\<close> for any value, which is how a property access \<^verbatim>\<open>obj[v]\<close> names the
  property. An array prints its elements with commas between them, \<^verbatim>\<open>null\<close> and
  \<^verbatim>\<open>undefined\<close> as nothing. An object read by \<^verbatim>\<open>JSON.parse\<close> prints as
  \<^verbatim>\<open>[object Object]\<close>, unless it has an own property \<^verbatim>\<open>toString\<close>: that property
  holds a value and no function, \<^verbatim>\<open>valueOf\<close> gives no scalar, and the conversion raises
  a TypeError.
\<close>

fun commas :: "string list \<Rightarrow> string" where
  "commas [] = []"
| "commas [s] = s"
| "commas (s # s' # ss) = s @ '','' @ commas (s' # ss)"

fun all_or_raise :: "(exn + 'a) list \<Rightarrow> exn + 'a list" where
  "all_or_raise [] = Inr []"
| "all_or_raise (Inl e # rs) = Inl e"
| "all_or_raise (Inr x # rs) = (case all_or_raise rs of Inl e \<Rightarrow> Inl e | Inr xs \<Rightarrow> Inr (x # xs))"

fun ToString_js :: "js \<Rightarrow> exn + string" where
  "ToString_js (Prim p) = Inr (ToString p)"
| "ToString_js (Arr vs) =
     (case all_or_raise
             (map (\<lambda>v. if v = Prim Undefined \<or> v = Prim Null then Inr [] else ToString_js v) vs) of
        Inl e \<Rightarrow> Inl e
      | Inr ss \<Rightarrow> Inr (commas ss))"
| "ToString_js (Obj kvs) =
     (if ''toString'' \<in> set (map fst kvs) then Inl TypeError else Inr ''[object Object]'')"

section \<open>The message kinds (messageTypes.js)\<close>

text \<open>The object literal, in the order it is written.\<close>

definition MessageTypes_literal :: "(string \<times> prim) list" where
  "MessageTypes_literal =
     [(''SERVER_CONNECT'', Num 1),
      (''CLIENT_CONNECT'', Num 2),
      (''SERVER_CONNECT_RESULT'', Num 3),
      (''USER_CONNECTED'', Num 4)]"

text \<open>
  The loop over \<^verbatim>\<open>Object.entries(MessageTypes)\<close>: each \<^verbatim>\<open>MessageTypes[value] = key\<close>
  adds the property named by the number, holding the name of the constant.
\<close>

definition MessageTypes :: "(string \<times> prim) list" where
  "MessageTypes =
     foldl (\<lambda>obj (key, value). obj @ [(ToString value, Str key)])
       MessageTypes_literal MessageTypes_literal"

text \<open>
  What the property of \<^verbatim>\<open>MessageTypes\<close> with a given name is: an own property, or
  else a member inherited from \<^verbatim>\<open>Object.prototype\<close> (a function, or the prototype
  object itself for \<^verbatim>\<open>__proto__\<close>), or else \<^verbatim>\<open>undefined\<close>. The read
  \<^verbatim>\<open>MessageTypes[type]\<close> first turns \<^verbatim>\<open>type\<close> into the name, which may raise.
\<close>

datatype jsval = Val prim | Inherited string

definition Object_prototype :: "string list" where
  "Object_prototype =
     [''constructor'', ''__defineGetter__'', ''__defineSetter__'', ''hasOwnProperty'',
      ''__lookupGetter__'', ''__lookupSetter__'', ''isPrototypeOf'', ''propertyIsEnumerable'',
      ''toString'', ''valueOf'', ''__proto__'', ''toLocaleString'']"

definition MessageTypes_at :: "string \<Rightarrow> jsval" where
  "MessageTypes_at key =
     (case map_of MessageTypes key of
        Some v \<Rightarrow> Val v
      | None \<Rightarrow> if key \<in> set Object_prototype then Inherited key else Val Undefined)"

definition MessageTypes_get :: "js \<Rightarrow> exn + jsval" where
  "MessageTypes_get type =
     (case ToString_js type of
        Inl e \<Rightarrow> Inl e
      | Inr key \<Rightarrow> Inr (MessageTypes_at key))"

text \<open>
  \<^verbatim>\<open>MessageTypes[k]\<close> as the \<^verbatim>\<open>type\<close> of a frame that the hub builds. The hub
  reads the keys 2 and 3, which are own properties of the table.
\<close>

definition frame_type :: "prim \<Rightarrow> js" where
  "frame_type k =
     (case MessageTypes_get (Prim k) of Inr (Val v) \<Rightarrow> Prim v | _ \<Rightarrow> Prim Undefined)"

text \<open>How a template literal prints a value read from the table.\<close>

fun ToString_val :: "jsval \<Rightarrow> string" where
  "ToString_val (Val p) = ToString p"
| "ToString_val (Inherited k) =
     (if k = ''__proto__'' then ''[object Object]''
      else ''function '' @ (if k = ''constructor'' then ''Object'' else k) @ ''() { [native code] }'')"

section \<open>The hub (hub.js)\<close>

subsection \<open>State\<close>

text \<open>
  A \<^verbatim>\<open>Map\<close> keeps its keys in insertion order; \<^verbatim>\<open>set\<close> on a key that is present
  replaces the value in place, and scalars are compared by value.
\<close>

type_synonym ('k, 'v) Map = "('k \<times> 'v) list"

fun Map_set :: "'k \<Rightarrow> 'v \<Rightarrow> ('k, 'v) Map \<Rightarrow> ('k, 'v) Map" where
  "Map_set k v [] = [(k, v)]"
| "Map_set k v ((k', v') # m) = (if k' = k then (k, v) # m else (k', v') # Map_set k v m)"

definition Map_get :: "('k, 'v) Map \<Rightarrow> 'k \<Rightarrow> 'v option" where
  "Map_get m k = map_of m k"

definition Map_delete :: "'k \<Rightarrow> ('k, 'v) Map \<Rightarrow> ('k, 'v) Map" where
  "Map_delete k m = filter (\<lambda>(k', v). k' \<noteq> k) m"

definition Map_keys :: "('k, 'v) Map \<Rightarrow> 'k list" where
  "Map_keys m = map fst m"

text \<open>
  A connection is named by a number. What the hub does to a connection is the list of
  its calls of \<^verbatim>\<open>ws.send\<close> and \<^verbatim>\<open>ws.close\<close>, oldest first; \<open>Send v\<close> stands for
  \<^verbatim>\<open>ws.send(JSON.stringify(v))\<close>. Both calls are taken to return normally.
\<close>

type_synonym ws = nat

datatype ws_call = Send js | Close

text \<open>The \<^verbatim>\<open>context\<close> object that the handlers of one connection close over.\<close>

record connection_context =
  serverName :: prim
  authenticated :: bool

datatype level = info | warn | error

datatype meta = NoMeta | Servers "prim list" | ErrorMessage exn | Msg js

type_synonym log_entry = "level \<times> string \<times> meta"

record hub =
  connectedServers :: "(prim, ws) Map"
  contexts :: "ws \<Rightarrow> connection_context"
  calls :: "ws \<Rightarrow> ws_call list"
  logs :: "log_entry list"

definition logger :: "level \<Rightarrow> string \<Rightarrow> meta \<Rightarrow> hub \<Rightarrow> hub" where
  "logger l text m h = h\<lparr>logs := logs h @ [(l, text, m)]\<rparr>"

definition ws_send :: "ws \<Rightarrow> js \<Rightarrow> hub \<Rightarrow> hub" where
  "ws_send ws v h = h\<lparr>calls := (calls h)(ws := calls h ws @ [Send v])\<rparr>"

definition ws_close :: "ws \<Rightarrow> hub \<Rightarrow> hub" where
  "ws_close ws h = h\<lparr>calls := (calls h)(ws := calls h ws @ [Close])\<rparr>"

text \<open>The characters of the log texts outside ASCII, in UTF-8.\<close>

definition cross_mark :: string where "cross_mark = [CHR 0xE2, CHR 0x9D, CHR 0x8C]"
definition check_mark :: string where "check_mark = [CHR 0xE2, CHR 0x9C, CHR 0x85]"
definition question_mark :: string where "question_mark = [CHR 0xE2, CHR 0x9D, CHR 0x93]"
definition exclamation_mark :: string where "exclamation_mark = [CHR 0xE2, CHR 0x9D, CHR 0x97]"
definition plug :: string where "plug = [CHR 0xF0, CHR 0x9F, CHR 0x94, CHR 0x8C]"
definition package :: string where "package = [CHR 0xF0, CHR 0x9F, CHR 0x93, CHR 0xA6]"
definition outbox :: string where "outbox = [CHR 0xF0, CHR 0x9F, CHR 0x93, CHR 0xA4]"
definition o_acute :: string where "o_acute = [CHR 0xC3, CHR 0xB3]"
definition quote :: string where "quote = [CHR 0x22]"

definition printState :: "hub \<Rightarrow> hub" where
  "printState h =
     logger info (package @ '' Servidores conectados:'')
       (Servers (Map_keys (connectedServers h))) h"

subsection \<open>isValidToken\<close>

text \<open>
  \<^verbatim>\<open>Buffer.from\<close> takes a string to its bytes and raises a TypeError on any other
  scalar. \<^verbatim>\<open>crypto.timingSafeEqual\<close> raises a RangeError on buffers of different
  lengths and compares the bytes otherwise.
\<close>

definition Buffer_from :: "prim \<Rightarrow> exn + string" where
  "Buffer_from v = (case v of Str s \<Rightarrow> Inr s | _ \<Rightarrow> Inl TypeError)"

definition timingSafeEqual :: "string \<Rightarrow> string \<Rightarrow> exn + bool" where
  "timingSafeEqual a b = (if length a \<noteq> length b then Inl RangeError else Inr (a = b))"

text \<open>
  \<open>env\<close> is \<^verbatim>\<open>process.env.GAME_SERVER_TOKEN\<close>: \<open>None\<close> when the variable is unset.
  The second component of the result lists the arguments of every call of
  \<^verbatim>\<open>crypto.timingSafeEqual\<close> that the run of the function made.
\<close>

definition isValidToken_traced ::
  "string option \<Rightarrow> prim \<Rightarrow> (exn + bool) \<times> (string \<times> string) list" where
  "isValidToken_traced env token =
     (let expected = (case env of None \<Rightarrow> Undefined | Some s \<Rightarrow> Str s) in
      if \<not> truthy token \<or> \<not> truthy expected then (Inr False, [])
      else
        case Buffer_from token of
          Inl e \<Rightarrow> (Inl e, [])
        | Inr tokenBuffer \<Rightarrow>
            (case Buffer_from expected of
               Inl e \<Rightarrow> (Inl e, [])
             | Inr expectedBuffer \<Rightarrow>
                 if length tokenBuffer \<noteq> length expectedBuffer then (Inr False, [])
                 else (timingSafeEqual tokenBuffer expectedBuffer,
                       [(tokenBuffer, expectedBuffer)])))"

definition isValidToken :: "string option \<Rightarrow> prim \<Rightarrow> exn + bool" where
  "isValidToken env token = fst (isValidToken_traced env token)"

subsection \<open>Frames\<close>

text \<open>
  The \<^verbatim>\<open>data\<close> of a frame is an object with scalar fields, or a scalar (also
  \<^verbatim>\<open>undefined\<close>, when the frame has none). \<open>get d k\<close> is \<^verbatim>\<open>d?.k\<close> for the
  keys the hub reads, none of which a scalar or \<^verbatim>\<open>Object.prototype\<close> has.
\<close>

datatype data = Scalar prim | Fields "(string \<times> prim) list"

definition get :: "data \<Rightarrow> string \<Rightarrow> prim" where
  "get d k =
     (case d of
        Scalar _ \<Rightarrow> Undefined
      | Fields kvs \<Rightarrow> (case map_of kvs k of None \<Rightarrow> Undefined | Some v \<Rightarrow> v))"

text \<open>
  What \<^verbatim>\<open>const { type, data } = JSON.parse(msg)\<close> makes of a message: the parser raises
  a SyntaxError, or the value is \<^verbatim>\<open>null\<close> and the destructuring raises a TypeError, or
  the two fields are read (\<^verbatim>\<open>undefined\<close> where absent).
\<close>

datatype parsed = Malformed | ParsedNull | Envelope js data

subsection \<open>handleServerConnect\<close>

definition handleServerConnect :: "string option \<Rightarrow> ws \<Rightarrow> data \<Rightarrow> hub \<Rightarrow> exn + hub" where
  "handleServerConnect env ws d h =
     (let context = contexts h ws;
          serverName' = (if truthy (get d ''name'') then get d ''name''
                         else serverName context);
          token = get d ''token''
      in case isValidToken env token of
           Inl e \<Rightarrow> Inl e
         | Inr False \<Rightarrow>
             (let h1 = ws_send ws
                    (Obj [(''type'', frame_type (Num 3)),
                          (''data'', Obj [(''message'', Prim (Str
                             (''Autenticaci'' @ o_acute @ ''n fallida para '' @ ToString serverName')))]),
                          (''success'', Prim (Bool False))]) h;
                  h2 = logger warn
                    (cross_mark @ '' Autenticaci'' @ o_acute @ ''n fallida para '' @ ToString serverName')
                    NoMeta h1
              in Inr (ws_close ws h2))
         | Inr True \<Rightarrow>
             (let h1 = h\<lparr>contexts := (contexts h)
                         (ws := \<lparr>serverName = serverName', authenticated = True\<rparr>)\<rparr>;
                  h2 = h1\<lparr>connectedServers := Map_set serverName' ws (connectedServers h1)\<rparr>;
                  h3 = ws_send ws
                    (Obj [(''type'', frame_type (Num 3)),
                          (''data'', Obj [(''message'', Prim (Str
                             (''Servidor '' @ ToString serverName' @ '' registrado correctamente''))),
                                          (''server_id'', Prim serverName')]),
                          (''success'', Prim (Bool True))]) h2;
                  h4 = logger info
                    (check_mark @ '' GameServer '' @ quote @ ToString serverName' @ quote @ '' conectado'')
                    NoMeta h3
              in Inr (printState h4)))"

subsection \<open>handleClientConnect\<close>

definition handleClientConnect :: "ws \<Rightarrow> data \<Rightarrow> hub \<Rightarrow> hub" where
  "handleClientConnect ws d h =
     (let serverName' = get d ''serverName'';
          target = Map_get (connectedServers h) serverName';
          success = (target \<noteq> None);
          h1 = ws_send ws
            (Obj [(''type'', frame_type (Num 2)),
                  (''data'',
                   (if success then Obj [(''token'', Prim (Str ''token''))]
                    else Obj [(''message'', Prim (Str
                           (''Servidor '' @ ToString serverName' @ '' no encontrado'')))]))]) h
      in logger (if success then info else warn)
           (if success
            then check_mark @ '' Cliente conectado al servidor: '' @ ToString serverName'
            else cross_mark @ '' Cliente fall'' @ o_acute @ '' al conectar: servidor '' @ quote
                 @ ToString serverName' @ quote @ '' no existe'')
           NoMeta h1)"

subsection \<open>createWebSocketServer: the handlers of a connection\<close>

definition on_connection :: "ws \<Rightarrow> hub \<Rightarrow> hub" where
  "on_connection ws h =
     (let h1 = logger info (plug @ '' Conexi'' @ o_acute @ ''n WebSocket abierta'') NoMeta h
      in h1\<lparr>contexts := (contexts h1)
              (ws := \<lparr>serverName = Str ''UnknownServer'', authenticated = False\<rparr>)\<rparr>)"

definition on_error :: "exn \<Rightarrow> hub \<Rightarrow> hub" where
  "on_error e h = logger error (exclamation_mark @ '' Error al procesar mensaje'') (ErrorMessage e) h"

definition on_message :: "string option \<Rightarrow> ws \<Rightarrow> parsed \<Rightarrow> hub \<Rightarrow> hub" where
  "on_message env ws msg h =
     (case msg of
        Malformed \<Rightarrow> on_error SyntaxError h
      | ParsedNull \<Rightarrow> on_error TypeError h
      | Envelope type d \<Rightarrow>
          (case MessageTypes_get type of
             Inl e \<Rightarrow> on_error e h
           | Inr typeStr \<Rightarrow>
               if typeStr = Val (Str ''SERVER_CONNECT'') then
                 (case handleServerConnect env ws d h of
                    Inl e \<Rightarrow> on_error e h
                  | Inr h' \<Rightarrow> h')
               else if typeStr = Val (Str ''CLIENT_CONNECT'') then
                 (if \<not> authenticated (contexts h ws) then
                    logger warn
                      (cross_mark @ '' Cliente intent'' @ o_acute
                       @ '' conectar a un servidor no autenticado'') NoMeta h
                  else handleClientConnect ws d h)
               else
                 logger warn
                   (question_mark @ '' Tipo de mensaje no manejado: '' @ ToString_val typeStr)
                   NoMeta h))"

definition on_close :: "ws \<Rightarrow> hub \<Rightarrow> hub" where
  "on_close ws h =
     (let context = contexts h ws;
          h1 = h\<lparr>connectedServers := Map_delete (serverName context) (connectedServers h)\<rparr>;
          h2 = logger info
            (plug @ '' Conexi'' @ o_acute @ ''n WebSocket cerrada: '' @ ToString (serverName context))
            NoMeta h1
      in printState h2)"

subsection \<open>sendMessageToServer and getConnectedServerNames\<close>

text \<open>The function has no \<^verbatim>\<open>return\<close>: its value is \<^verbatim>\<open>undefined\<close> on both branches.\<close>

definition sendMessageToServer :: "prim \<Rightarrow> js \<Rightarrow> hub \<Rightarrow> prim \<times> hub" where
  "sendMessageToServer name msg h =
     (case Map_get (connectedServers h) name of
        Some ws \<Rightarrow>
          (Undefined,
           logger info (outbox @ '' Mensaje enviado a '' @ quote @ ToString name @ quote) (Msg msg)
             (ws_send ws msg h))
      | None \<Rightarrow>
          (Undefined,
           logger warn
             (cross_mark @ '' No se pudo enviar: GameServer '' @ quote @ ToString name @ quote
              @ '' no encontrado'') NoMeta h))"

definition getConnectedServerNames :: "hub \<Rightarrow> prim list" where
  "getConnectedServerNames h = Map_keys (connectedServers h)"

subsection \<open>Runs of the hub\<close>

text \<open>
  The module starts with an empty map. The events of a run are the connections, messages
  and closes that the WebSocket server reports, and the calls of \<^verbatim>\<open>sendMessageToServer\<close>
  by the rest of the program.
\<close>

definition hub_init :: hub where
  "hub_init =
     \<lparr>connectedServers = [],
      contexts = (\<lambda>_. \<lparr>serverName = Str ''UnknownServer'', authenticated = False\<rparr>),
      calls = (\<lambda>_. []),
      logs = []\<rparr>"

datatype event =
    Connection ws
  | Message ws parsed
  | Closed ws
  | Relay prim js

fun step :: "string option \<Rightarrow> hub \<Rightarrow> event \<Rightarrow> hub" where
  "step env h (Connection ws) = on_connection ws h"
| "step env h (Message ws msg) = on_message env ws msg h"
| "step env h (Closed ws) = on_close ws h"
| "step env h (Relay name msg) = snd (sendMessageToServer name msg h)"

definition run :: "string option \<Rightarrow> event list \<Rightarrow> hub" where
  "run env evs = foldl (step env) hub_init evs"

subsection \<open>Reading a frame\<close>




section \<open>Auxiliary facts\<close>

subsection \<open>The table of message kinds\<close>

lemma MessageTypes_table:
  "MessageTypes =
     [(''SERVER_CONNECT'', Num 1), (''CLIENT_CONNECT'', Num 2),
      (''SERVER_CONNECT_RESULT'', Num 3), (''USER_CONNECTED'', Num 4),
      (''1'', Str ''SERVER_CONNECT''), (''2'', Str ''CLIENT_CONNECT''),
      (''3'', Str ''SERVER_CONNECT_RESULT''), (''4'', Str ''USER_CONNECTED'')]"
  by (simp add: MessageTypes_def MessageTypes_literal_def Number_toString_def digits.simps)

lemma Number_toString_ids:
  "Number_toString 1 = ''1''" "Number_toString 2 = ''2''"
  "Number_toString 3 = ''3''" "Number_toString 4 = ''4''"
  by (simp_all add: Number_toString_def digits.simps)

lemma frame_type_2 [simp]: "frame_type (Num 2) = Prim (Str ''CLIENT_CONNECT'')"
  by (simp add: frame_type_def MessageTypes_get_def MessageTypes_at_def MessageTypes_table
      Number_toString_ids)

lemma frame_type_3 [simp]: "frame_type (Num 3) = Prim (Str ''SERVER_CONNECT_RESULT'')"
  by (simp add: frame_type_def MessageTypes_get_def MessageTypes_at_def MessageTypes_table
      Number_toString_ids)

lemma digits_nonempty: "digits n \<noteq> []"
  by (induction n rule: digits.induct) (subst digits.simps, simp)

lemma digits_length_two: "\<not> n < 10 \<Longrightarrow> 2 \<le> length (digits n)"
proof -
  assume big: "\<not> n < 10"
  have "1 \<le> length (digits (n div 10))"
    using digits_nonempty [of "n div 10"] by (cases "digits (n div 10)") simp_all
  with big show ?thesis
    by (subst digits.simps) simp
qed

lemma small_cases:
  "n < 10 \<Longrightarrow> n \<in> {0, 1, 2, 3, 4, 5, 6, 7, 8, 9 :: nat}"
  by auto

lemma digits_one_char:
  "digits n = [c] \<longleftrightarrow> n < 10 \<and> ''0123456789'' ! n = c"
proof (cases "n < 10")
  case True
  then show ?thesis by (subst digits.simps) auto
next
  case False
  then show ?thesis using digits_length_two [of n] by auto
qed

lemma digits_eq_1: "digits n = ''1'' \<longleftrightarrow> n = 1"
  unfolding digits_one_char using small_cases [of n] by auto

lemma digits_eq_2: "digits n = ''2'' \<longleftrightarrow> n = 2"
  unfolding digits_one_char using small_cases [of n] by auto

lemma Number_toString_eq_1: "Number_toString n = ''1'' \<longleftrightarrow> n = 1"
  by (auto simp: Number_toString_def digits_eq_1)

lemma Number_toString_eq_2: "Number_toString n = ''2'' \<longleftrightarrow> n = 2"
  by (auto simp: Number_toString_def digits_eq_2)

lemma ToString_eq_1: "ToString t = ''1'' \<longleftrightarrow> t = Num 1 \<or> t = Str ''1''"
  by (cases t) (auto simp: Number_toString_eq_1)

lemma ToString_eq_2: "ToString t = ''2'' \<longleftrightarrow> t = Num 2 \<or> t = Str ''2''"
  by (cases t) (auto simp: Number_toString_eq_2)

lemma ToString_js_Prim_1:
  "ToString_js (Prim p) = Inr ''1'' \<longleftrightarrow> p = Num 1 \<or> p = Str ''1''"
  by (simp add: ToString_eq_1)

lemma ToString_js_Prim_2:
  "ToString_js (Prim p) = Inr ''2'' \<longleftrightarrow> p = Num 2 \<or> p = Str ''2''"
  by (simp add: ToString_eq_2)

lemma ToString_js_singleton:
  "v \<noteq> Prim Undefined \<Longrightarrow> v \<noteq> Prim Null \<Longrightarrow> ToString_js (Arr [v]) = ToString_js v"
  by (cases "ToString_js v") simp_all

lemma MessageTypes_at_SERVER_CONNECT:
  "MessageTypes_at k = Val (Str ''SERVER_CONNECT'') \<longleftrightarrow> k = ''1''"
  by (simp add: MessageTypes_at_def MessageTypes_table)

lemma MessageTypes_at_CLIENT_CONNECT:
  "MessageTypes_at k = Val (Str ''CLIENT_CONNECT'') \<longleftrightarrow> k = ''2''"
  by (simp add: MessageTypes_at_def MessageTypes_table)

lemma MessageTypes_get_names:
  "MessageTypes_get (Prim (Str ''SERVER_CONNECT'')) = Inr (Val (Num 1))"
  "MessageTypes_get (Prim (Str ''CLIENT_CONNECT'')) = Inr (Val (Num 2))"
  "MessageTypes_get (Prim (Str ''SERVER_CONNECT_RESULT'')) = Inr (Val (Num 3))"
  "MessageTypes_get (Prim (Str ''USER_CONNECTED'')) = Inr (Val (Num 4))"
  by (simp_all add: MessageTypes_get_def MessageTypes_at_def MessageTypes_table)

lemma MessageTypes_get_ids:
  "MessageTypes_get (Prim (Num 1)) = Inr (Val (Str ''SERVER_CONNECT''))"
  "MessageTypes_get (Prim (Num 2)) = Inr (Val (Str ''CLIENT_CONNECT''))"
  "MessageTypes_get (Prim (Num 3)) = Inr (Val (Str ''SERVER_CONNECT_RESULT''))"
  "MessageTypes_get (Prim (Num 4)) = Inr (Val (Str ''USER_CONNECTED''))"
  by (simp_all add: MessageTypes_get_def MessageTypes_at_def MessageTypes_table
      Number_toString_ids)

subsection \<open>The map\<close>

lemma Map_get_set: "Map_get (Map_set k v m) k' = (if k' = k then Some v else Map_get m k')"
  by (induction m) (auto simp: Map_get_def)

lemma Map_keys_Map_set:
  "Map_keys (Map_set k v m) = (if k \<in> set (Map_keys m) then Map_keys m else Map_keys m @ [k])"
  by (induction m) (force simp: Map_keys_def)+

lemma Map_keys_set: "set (Map_keys (Map_set k v m)) = insert k (set (Map_keys m))"
  by (auto simp: Map_keys_Map_set)

lemma Map_keys_set_distinct: "distinct (Map_keys m) \<Longrightarrow> distinct (Map_keys (Map_set k v m))"
  by (simp add: Map_keys_Map_set)


lemma Map_keys_delete: "set (Map_keys (Map_delete k m)) = set (Map_keys m) - {k}"
  by (auto simp: Map_keys_def Map_delete_def)

lemma Map_delete_same_iff: "Map_delete k m = m \<longleftrightarrow> k \<notin> set (Map_keys m)"
  by (force simp: Map_delete_def Map_keys_def filter_id_conv)

lemma Map_get_None_iff: "Map_get m k = None \<longleftrightarrow> k \<notin> set (Map_keys m)"
  by (simp add: Map_get_def Map_keys_def map_of_eq_None_iff)

subsection \<open>The token check\<close>

lemma isValidToken_True:
  "isValidToken env token = Inr True \<longleftrightarrow> (\<exists>s. s \<noteq> [] \<and> token = Str s \<and> env = Some s)"
  by (cases token; cases env)
     (auto simp: isValidToken_def isValidToken_traced_def Buffer_from_def timingSafeEqual_def)

lemma isValidToken_unconfigured:
  "env = None \<or> env = Some [] \<Longrightarrow> isValidToken env token = Inr False"
  by (auto simp: isValidToken_def isValidToken_traced_def)

lemma isValidToken_falsy: "\<not> truthy token \<Longrightarrow> isValidToken env token = Inr False"
  by (simp add: isValidToken_def isValidToken_traced_def)

lemma isValidToken_wrong: "env \<noteq> Some t \<Longrightarrow> isValidToken env (Str t) = Inr False"
  by (cases env)
     (auto simp: isValidToken_def isValidToken_traced_def Buffer_from_def timingSafeEqual_def)

lemma isValidToken_raises:
  "isValidToken env token = Inl e \<longleftrightarrow>
     e = TypeError \<and> truthy token \<and> (\<exists>s. env = Some s \<and> s \<noteq> []) \<and> (\<forall>t. token \<noteq> Str t)"
  by (cases token; cases env)
     (auto simp: isValidToken_def isValidToken_traced_def Buffer_from_def timingSafeEqual_def)


subsection \<open>Dispatch and the two handlers\<close>

lemma on_message_key_1:
  "ToString_js t = Inr ''1'' \<Longrightarrow>
   on_message env ws (Envelope t d) h =
     (case handleServerConnect env ws d h of Inl e \<Rightarrow> on_error e h | Inr h' \<Rightarrow> h')"
  by (simp add: on_message_def MessageTypes_get_def MessageTypes_at_SERVER_CONNECT)

lemma on_message_key_2:
  "ToString_js t = Inr ''2'' \<Longrightarrow>
   on_message env ws (Envelope t d) h =
     (if \<not> authenticated (contexts h ws) then
        logger warn
          (cross_mark @ '' Cliente intent'' @ o_acute @ '' conectar a un servidor no autenticado'')
          NoMeta h
      else handleClientConnect ws d h)"
  by (simp add: on_message_def MessageTypes_get_def MessageTypes_at_SERVER_CONNECT
      MessageTypes_at_CLIENT_CONNECT)

lemma on_message_key_other:
  "ToString_js t = Inr k \<Longrightarrow> k \<noteq> ''1'' \<Longrightarrow> k \<noteq> ''2'' \<Longrightarrow>
   on_message env ws (Envelope t d) h =
     logger warn
       (question_mark @ '' Tipo de mensaje no manejado: '' @ ToString_val (MessageTypes_at k))
       NoMeta h"
  by (simp add: on_message_def MessageTypes_get_def MessageTypes_at_SERVER_CONNECT
      MessageTypes_at_CLIENT_CONNECT)

lemma on_message_key_raise:
  "ToString_js t = Inl e \<Longrightarrow> on_message env ws (Envelope t d) h = on_error e h"
  by (simp add: on_message_def MessageTypes_get_def)

lemma on_message_SERVER_CONNECT:
  "t = Prim (Num 1) \<or> t = Prim (Str ''1'') \<Longrightarrow>
   on_message env ws (Envelope t d) h =
     (case handleServerConnect env ws d h of Inl e \<Rightarrow> on_error e h | Inr h' \<Rightarrow> h')"
proof -
  assume "t = Prim (Num 1) \<or> t = Prim (Str ''1'')"
  then have "ToString_js t = Inr ''1''"
    using ToString_js_Prim_1 by blast
  then show ?thesis by (rule on_message_key_1)
qed


lemma key_cases:
  obtains (raise) e where "ToString_js t = Inl e"
  | (server) "ToString_js t = Inr ''1''"
  | (client) "ToString_js t = Inr ''2''"
  | (other) k where "ToString_js t = Inr k" and "k \<noteq> ''1''" and "k \<noteq> ''2''"
  by (cases "ToString_js t") auto

lemma handleServerConnect_accept:
  assumes "isValidToken env (get d ''token'') = Inr True"
  shows "\<exists>h'. handleServerConnect env ws d h = Inr h' \<and>
           connectedServers h' =
             Map_set (if truthy (get d ''name'') then get d ''name'' else serverName (contexts h ws))
               ws (connectedServers h) \<and>
           contexts h' = (contexts h)
             (ws := \<lparr>serverName = (if truthy (get d ''name'') then get d ''name''
                                    else serverName (contexts h ws)),
                     authenticated = True\<rparr>) \<and>
           calls h' = (calls h)
             (ws := calls h ws @
                [Send (Obj [(''type'', Prim (Str ''SERVER_CONNECT_RESULT'')),
                            (''data'', Obj [(''message'', Prim (Str (''Servidor '' @
                                 ToString (if truthy (get d ''name'') then get d ''name''
                                           else serverName (contexts h ws)) @
                                 '' registrado correctamente''))),
                               (''server_id'', Prim (if truthy (get d ''name'') then get d ''name''
                                                     else serverName (contexts h ws)))]),
                            (''success'', Prim (Bool True))])])"
  using assms
  by (simp add: handleServerConnect_def Let_def ws_send_def logger_def printState_def)

lemma handleServerConnect_reject:
  assumes "isValidToken env (get d ''token'') = Inr False"
  shows "\<exists>h'. handleServerConnect env ws d h = Inr h' \<and>
           connectedServers h' = connectedServers h \<and>
           contexts h' = contexts h \<and>
           calls h' = (calls h)
             (ws := calls h ws @
                [Send (Obj [(''type'', Prim (Str ''SERVER_CONNECT_RESULT'')),
                            (''data'', Obj [(''message'', Prim (Str (''Autenticaci'' @ o_acute @
                                 ''n fallida para '' @
                                 ToString (if truthy (get d ''name'') then get d ''name''
                                           else serverName (contexts h ws)))))]),
                            (''success'', Prim (Bool False))]),
                 Close])"
  using assms
  by (simp add: handleServerConnect_def Let_def ws_send_def ws_close_def logger_def)

lemma handleServerConnect_raise:
  assumes "isValidToken env (get d ''token'') = Inl e"
  shows "handleServerConnect env ws d h = Inl e"
  using assms by (simp add: handleServerConnect_def Let_def)

subsection \<open>Evaluating a run\<close>

lemmas hub_eval =
  run_def hub_init_def on_connection_def on_close_def on_error_def
  on_message_def MessageTypes_get_def MessageTypes_at_def MessageTypes_table
  Object_prototype_def Number_toString_ids
  handleServerConnect_def handleClientConnect_def sendMessageToServer_def
  getConnectedServerNames_def isValidToken_def isValidToken_traced_def Buffer_from_def
  timingSafeEqual_def get_def logger_def ws_send_def ws_close_def printState_def
  Map_get_def Map_delete_def Map_keys_def Let_def

subsection \<open>The contexts along a run\<close>

lemma contexts_on_message:
  "contexts (on_message env ws msg h) = contexts h \<or>
   (\<exists>n. contexts (on_message env ws msg h) =
      (contexts h)(ws := \<lparr>serverName = n, authenticated = True\<rparr>))"
proof (cases msg)
  case Malformed
  then show ?thesis by (simp add: on_message_def on_error_def logger_def)
next
  case ParsedNull
  then show ?thesis by (simp add: on_message_def on_error_def logger_def)
next
  case (Envelope t d)
  show ?thesis
  proof (cases rule: key_cases [of t])
    case (raise e)
    with Envelope show ?thesis
      by (simp add: on_message_key_raise on_error_def logger_def)
  next
    case server
    show ?thesis
    proof (cases "isValidToken env (get d ''token'')")
      case (Inl e)
      with server Envelope show ?thesis
        by (simp add: on_message_key_1 handleServerConnect_raise on_error_def logger_def)
    next
      case (Inr b)
      show ?thesis
      proof (cases b)
        case True
        with Inr handleServerConnect_accept [of env d ws h] server Envelope show ?thesis
          by (auto simp: on_message_key_1)
      next
        case False
        with Inr handleServerConnect_reject [of env d ws h] server Envelope show ?thesis
          by (auto simp: on_message_key_1)
      qed
    qed
  next
    case client
    with Envelope show ?thesis
      by (simp add: on_message_key_2 handleClientConnect_def logger_def ws_send_def Let_def)
  next
    case (other k)
    with Envelope show ?thesis
      by (simp add: on_message_key_other logger_def)
  qed
qed

lemma run_snoc: "run env (evs @ [ev]) = step env (run env evs) ev"
  by (simp add: run_def)

lemma run_unauthenticated:
  "\<not> authenticated (contexts (run env evs) ws) \<Longrightarrow>
   serverName (contexts (run env evs) ws) = Str ''UnknownServer''"
proof (induction evs arbitrary: ws rule: rev_induct)
  case Nil
  then show ?case by (simp add: run_def hub_init_def)
next
  case (snoc ev evs)
  show ?case
  proof (cases ev)
    case (Connection c)
    with snoc show ?thesis
      by (auto simp: run_snoc on_connection_def logger_def Let_def split: if_splits)
  next
    case (Message c msg)
    with snoc contexts_on_message [of env c msg "run env evs"] show ?thesis
      by (auto simp: run_snoc split: if_splits)
  next
    case (Closed c)
    with snoc show ?thesis
      by (simp add: run_snoc on_close_def logger_def printState_def Let_def)
  next
    case (Relay n m)
    with snoc show ?thesis
      by (simp add: run_snoc sendMessageToServer_def logger_def ws_send_def split: option.splits)
  qed
qed

subsection \<open>The map while no secret is configured\<close>

lemma connectedServers_on_message_unconfigured:
  assumes "env = None \<or> env = Some []"
  shows "connectedServers (on_message env ws msg h) = connectedServers h"
proof (cases msg)
  case Malformed
  then show ?thesis by (simp add: on_message_def on_error_def logger_def)
next
  case ParsedNull
  then show ?thesis by (simp add: on_message_def on_error_def logger_def)
next
  case (Envelope t d)
  show ?thesis
  proof (cases rule: key_cases [of t])
    case (raise e)
    with Envelope show ?thesis
      by (simp add: on_message_key_raise on_error_def logger_def)
  next
    case server
    have "isValidToken env (get d ''token'') = Inr False"
      using assms by (rule isValidToken_unconfigured)
    with handleServerConnect_reject [of env d ws h] server Envelope show ?thesis
      by (auto simp: on_message_key_1)
  next
    case client
    with Envelope show ?thesis
      by (simp add: on_message_key_2 handleClientConnect_def logger_def ws_send_def Let_def)
  next
    case (other k)
    with Envelope show ?thesis
      by (simp add: on_message_key_other logger_def)
  qed
qed

lemma run_unconfigured:
  assumes "env = None \<or> env = Some []"
  shows "connectedServers (run env evs) = []"
proof (induction evs rule: rev_induct)
  case Nil
  then show ?case by (simp add: run_def hub_init_def)
next
  case (snoc ev evs)
  show ?case
  proof (cases ev)
    case (Connection c)
    with snoc show ?thesis
      by (simp add: run_snoc on_connection_def logger_def Let_def)
  next
    case (Message c msg)
    with snoc connectedServers_on_message_unconfigured [OF assms, of c msg "run env evs"]
    show ?thesis by (simp add: run_snoc)
  next
    case (Closed c)
    with snoc show ?thesis
      by (simp add: run_snoc on_close_def logger_def printState_def Let_def Map_delete_def)
  next
    case (Relay n m)
    with snoc show ?thesis
      by (simp add: run_snoc sendMessageToServer_def logger_def ws_send_def split: option.splits)
  qed
qed

section \<open>The close of a connection\<close>




text \<open>
  Claim C10. A session that has not authenticated still has the name \<^verbatim>\<open>'UnknownServer'\<close>
  in its context, and its close handler deletes the entry of the map under that name. So
  the close leaves the map as it was exactly when no server is registered under the name
  \<^verbatim>\<open>'UnknownServer'\<close>; a server that is registered under it loses its entry to the close
  of any unauthenticated session.
\<close>

theorem close_of_unauthenticated_session:
  assumes "h = run env evs" and "\<not> authenticated (contexts h ws)"
  shows "connectedServers (on_close ws h) = Map_delete (Str ''UnknownServer'') (connectedServers h)
       \<and> (connectedServers (on_close ws h) = connectedServers h
            \<longleftrightarrow> Str ''UnknownServer'' \<notin> set (getConnectedServerNames h))
       \<and> Str ''UnknownServer'' \<notin> set (getConnectedServerNames (on_close ws h))"
proof -
  have name: "serverName (contexts h ws) = Str ''UnknownServer''"
    using assms run_unauthenticated by simp
  then have del: "connectedServers (on_close ws h)
      = Map_delete (Str ''UnknownServer'') (connectedServers h)"
    by (simp add: on_close_def logger_def printState_def Let_def)
  show ?thesis
    unfolding del getConnectedServerNames_def
    by (simp add: Map_delete_same_iff Map_keys_delete)
qed

theorem close_of_unauthenticated_session_witness:
  "\<not> authenticated (contexts (run (Some ''s3cret'')
        [Connection 1, Connection 2,
         Message 1 (Envelope (Prim (Num 1))
           (Fields [(''name'', Str ''UnknownServer''), (''token'', Str ''s3cret'')]))]) 2)
   \<and> getConnectedServerNames (run (Some ''s3cret'')
        [Connection 1, Connection 2,
         Message 1 (Envelope (Prim (Num 1))
           (Fields [(''name'', Str ''UnknownServer''), (''token'', Str ''s3cret'')]))])
       = [Str ''UnknownServer'']
   \<and> connectedServers (on_close 2 (run (Some ''s3cret'')
        [Connection 1, Connection 2,
         Message 1 (Envelope (Prim (Num 1))
           (Fields [(''name'', Str ''UnknownServer''), (''token'', Str ''s3cret'')]))])) = []"
  using close_of_unauthenticated_session
    [of "run (Some ''s3cret'')
        [Connection 1, Connection 2,
         Message 1 (Envelope (Prim (Num 1))
           (Fields [(''name'', Str ''UnknownServer''), (''token'', Str ''s3cret'')]))]"
       "Some ''s3cret''"
       "[Connection 1, Connection 2,
         Message 1 (Envelope (Prim (Num 1))
           (Fields [(''name'', Str ''UnknownServer''), (''token'', Str ''s3cret'')]))]" 2]
  by (simp add: hub_eval)

section \<open>Dispatch\<close>

text \<open>
  Claim C2 says that the number and the name of a kind are dispatched alike. The same
  \<^verbatim>\<open>SERVER_CONNECT\<close> data, with a valid token, registers the server when the type is
  the number 1, and registers nothing and answers nothing when the type is the string
  \<^verbatim>\<open>"SERVER_CONNECT"\<close>: the table sends the name to the number 1, which is none
  of the cases of the \<^verbatim>\<open>switch\<close>, and the frame is logged as not handled.
\<close>

theorem name_alias_is_not_dispatched:
  "connectedServers (on_message (Some ''s3cret'') 1
      (Envelope (Prim (Num 1)) (Fields [(''name'', Str ''Zone1''), (''token'', Str ''s3cret'')]))
      hub_init) = [(Str ''Zone1'', 1)]
   \<and> connectedServers (on_message (Some ''s3cret'') 1
      (Envelope (Prim (Str ''SERVER_CONNECT'')) (Fields [(''name'', Str ''Zone1''), (''token'', Str ''s3cret'')]))
      hub_init) = []
   \<and> calls (on_message (Some ''s3cret'') 1
      (Envelope (Prim (Str ''SERVER_CONNECT'')) (Fields [(''name'', Str ''Zone1''), (''token'', Str ''s3cret'')]))
      hub_init) 1 = []
   \<and> logs (on_message (Some ''s3cret'') 1
      (Envelope (Prim (Str ''SERVER_CONNECT'')) (Fields [(''name'', Str ''Zone1''), (''token'', Str ''s3cret'')]))
      hub_init) = [(warn, question_mark @ '' Tipo de mensaje no manejado: 1'', NoMeta)]"
  by (simp add: hub_eval MessageTypes_get_def MessageTypes_table Number_toString_ids)

text \<open>
  Claim C2, amended. A frame is dispatched on the name of the property that
  \<^verbatim>\<open>MessageTypes[type]\<close> reads, which is \<^verbatim>\<open>String(type)\<close>. The name \<^verbatim>\<open>1\<close> goes to
  \<^verbatim>\<open>handleServerConnect\<close> and the name \<^verbatim>\<open>2\<close> to the \<^verbatim>\<open>CLIENT_CONNECT\<close> case: among
  the scalars these are the number and its decimal string, and an array of one element
  has the name of its element, so that \<^verbatim>\<open>[1]\<close> is dispatched as 1 is. A type with any
  other name is logged with a warning and changes nothing else: so are the ids 3 and 4,
  which the table resolves to names without a case, and the four names, which it resolves
  to their numbers. A type that has no name, an object with an own property
  \<^verbatim>\<open>toString\<close>, raises; the error is logged and nothing else changes.
\<close>

theorem dispatch_by_property_name:
  "(ToString_js t = Inr ''1'' \<longrightarrow>
      on_message env ws (Envelope t d) h =
        (case handleServerConnect env ws d h of Inl e \<Rightarrow> on_error e h | Inr h' \<Rightarrow> h'))
   \<and> (ToString_js t = Inr ''2'' \<longrightarrow>
      on_message env ws (Envelope t d) h =
        (if authenticated (contexts h ws) then handleClientConnect ws d h
         else logger warn
           (cross_mark @ '' Cliente intent'' @ o_acute @ '' conectar a un servidor no autenticado'')
           NoMeta h))
   \<and> (ToString_js t = Inr k \<and> k \<noteq> ''1'' \<and> k \<noteq> ''2'' \<longrightarrow>
      connectedServers (on_message env ws (Envelope t d) h) = connectedServers h
      \<and> contexts (on_message env ws (Envelope t d) h) = contexts h
      \<and> calls (on_message env ws (Envelope t d) h) = calls h
      \<and> logs (on_message env ws (Envelope t d) h) =
          logs h @ [(warn, question_mark @ '' Tipo de mensaje no manejado: ''
                             @ ToString_val (MessageTypes_at k), NoMeta)])
   \<and> (ToString_js t = Inl e \<longrightarrow>
      connectedServers (on_message env ws (Envelope t d) h) = connectedServers h
      \<and> contexts (on_message env ws (Envelope t d) h) = contexts h
      \<and> calls (on_message env ws (Envelope t d) h) = calls h
      \<and> logs (on_message env ws (Envelope t d) h) =
          logs h @ [(error, exclamation_mark @ '' Error al procesar mensaje'', ErrorMessage e)])
   \<and> (ToString_js (Prim p) = Inr ''1'' \<longleftrightarrow> p = Num 1 \<or> p = Str ''1'')
   \<and> (ToString_js (Prim p) = Inr ''2'' \<longleftrightarrow> p = Num 2 \<or> p = Str ''2'')
   \<and> (v \<noteq> Prim Undefined \<and> v \<noteq> Prim Null \<longrightarrow> ToString_js (Arr [v]) = ToString_js v)
   \<and> MessageTypes_get (Prim (Str ''SERVER_CONNECT'')) = Inr (Val (Num 1))
   \<and> MessageTypes_get (Prim (Str ''CLIENT_CONNECT'')) = Inr (Val (Num 2))
   \<and> MessageTypes_get (Prim (Str ''SERVER_CONNECT_RESULT'')) = Inr (Val (Num 3))
   \<and> MessageTypes_get (Prim (Str ''USER_CONNECTED'')) = Inr (Val (Num 4))
   \<and> MessageTypes_get (Prim (Num 3)) = Inr (Val (Str ''SERVER_CONNECT_RESULT''))
   \<and> MessageTypes_get (Prim (Num 4)) = Inr (Val (Str ''USER_CONNECTED''))"
proof -
  have server: "ToString_js t = Inr ''1'' \<longrightarrow>
      on_message env ws (Envelope t d) h =
        (case handleServerConnect env ws d h of Inl e \<Rightarrow> on_error e h | Inr h' \<Rightarrow> h')"
    by (simp add: on_message_key_1)
  have client: "ToString_js t = Inr ''2'' \<longrightarrow>
      on_message env ws (Envelope t d) h =
        (if authenticated (contexts h ws) then handleClientConnect ws d h
         else logger warn
           (cross_mark @ '' Cliente intent'' @ o_acute @ '' conectar a un servidor no autenticado'')
           NoMeta h)"
    by (simp add: on_message_key_2)
  have other: "ToString_js t = Inr k \<and> k \<noteq> ''1'' \<and> k \<noteq> ''2'' \<longrightarrow>
      connectedServers (on_message env ws (Envelope t d) h) = connectedServers h
      \<and> contexts (on_message env ws (Envelope t d) h) = contexts h
      \<and> calls (on_message env ws (Envelope t d) h) = calls h
      \<and> logs (on_message env ws (Envelope t d) h) =
          logs h @ [(warn, question_mark @ '' Tipo de mensaje no manejado: ''
                             @ ToString_val (MessageTypes_at k), NoMeta)]"
    by (simp add: on_message_key_other logger_def)
  have raise: "ToString_js t = Inl e \<longrightarrow>
      connectedServers (on_message env ws (Envelope t d) h) = connectedServers h
      \<and> contexts (on_message env ws (Envelope t d) h) = contexts h
      \<and> calls (on_message env ws (Envelope t d) h) = calls h
      \<and> logs (on_message env ws (Envelope t d) h) =
          logs h @ [(error, exclamation_mark @ '' Error al procesar mensaje'', ErrorMessage e)]"
    by (simp add: on_message_key_raise on_error_def logger_def)
  have single: "v \<noteq> Prim Undefined \<and> v \<noteq> Prim Null \<longrightarrow> ToString_js (Arr [v]) = ToString_js v"
    using ToString_js_singleton [of v] by blast
  from server client other raise single ToString_js_Prim_1 [of p] ToString_js_Prim_2 [of p]
    MessageTypes_get_names MessageTypes_get_ids
  show ?thesis by blast
qed

theorem dispatch_by_property_name_witness:
  "connectedServers (on_message (Some ''s3cret'') 1
      (Envelope (Arr [Prim (Num 1)]) (Fields [(''name'', Str ''Zone1''), (''token'', Str ''s3cret'')]))
      hub_init) = [(Str ''Zone1'', 1)]
   \<and> logs (on_message (Some ''s3cret'') 1
      (Envelope (Prim (Num 2)) (Fields [(''serverName'', Str ''Zone1'')])) hub_init)
     = [(warn, cross_mark @ '' Cliente intent'' @ o_acute @ '' conectar a un servidor no autenticado'',
         NoMeta)]
   \<and> logs (on_message (Some ''s3cret'') 1
      (Envelope (Prim (Str ''USER_CONNECTED'')) (Fields [])) hub_init)
     = [(warn, question_mark @ '' Tipo de mensaje no manejado: 4'', NoMeta)]
   \<and> logs (on_message (Some ''s3cret'') 1
      (Envelope (Obj [(''toString'', Prim (Num 1))]) (Fields [])) hub_init)
     = [(error, exclamation_mark @ '' Error al procesar mensaje'', ErrorMessage TypeError)]"
proof -
  have k1: "ToString_js (Arr [Prim (Num 1)]) = Inr ''1''"
    by (simp add: Number_toString_ids)
  have k2: "ToString_js (Prim (Num 2)) = Inr ''2''"
    by (simp add: Number_toString_ids)
  have k4: "ToString_js (Prim (Str ''USER_CONNECTED'')) = Inr ''USER_CONNECTED''
      \<and> ''USER_CONNECTED'' \<noteq> ''1'' \<and> ''USER_CONNECTED'' \<noteq> ''2''"
    by simp
  have ke: "ToString_js (Obj [(''toString'', Prim (Num 1))]) = Inl TypeError"
    by simp
  have at4: "ToString_val (MessageTypes_at ''USER_CONNECTED'') = ''4''"
    by (simp add: MessageTypes_at_def MessageTypes_table Number_toString_ids)
  from dispatch_by_property_name [of "Arr [Prim (Num 1)]" "Some ''s3cret''" 1
      "Fields [(''name'', Str ''Zone1''), (''token'', Str ''s3cret'')]" hub_init] k1
  have a: "connectedServers (on_message (Some ''s3cret'') 1
      (Envelope (Arr [Prim (Num 1)]) (Fields [(''name'', Str ''Zone1''), (''token'', Str ''s3cret'')]))
      hub_init) = [(Str ''Zone1'', 1)]"
    by (simp add: hub_init_def handleServerConnect_def isValidToken_def isValidToken_traced_def
        Buffer_from_def timingSafeEqual_def get_def logger_def ws_send_def printState_def Let_def)
  from dispatch_by_property_name [of "Prim (Num 2)" "Some ''s3cret''" 1
      "Fields [(''serverName'', Str ''Zone1'')]" hub_init] k2
  have b: "logs (on_message (Some ''s3cret'') 1
      (Envelope (Prim (Num 2)) (Fields [(''serverName'', Str ''Zone1'')])) hub_init)
     = [(warn, cross_mark @ '' Cliente intent'' @ o_acute @ '' conectar a un servidor no autenticado'',
         NoMeta)]"
    by (simp add: hub_init_def logger_def)
  from dispatch_by_property_name [of "Prim (Str ''USER_CONNECTED'')" "Some ''s3cret''" 1
      "Fields []" hub_init "''USER_CONNECTED''"] k4 at4
  have c: "logs (on_message (Some ''s3cret'') 1
      (Envelope (Prim (Str ''USER_CONNECTED'')) (Fields [])) hub_init)
     = [(warn, question_mark @ '' Tipo de mensaje no manejado: 4'', NoMeta)]"
    by (simp add: hub_init_def)
  from dispatch_by_property_name [of "Obj [(''toString'', Prim (Num 1))]" "Some ''s3cret''" 1
      "Fields []" hub_init _ TypeError] ke
  have d: "logs (on_message (Some ''s3cret'') 1
      (Envelope (Obj [(''toString'', Prim (Num 1))]) (Fields [])) hub_init)
     = [(error, exclamation_mark @ '' Error al procesar mensaje'', ErrorMessage TypeError)]"
    by (simp add: hub_init_def)
  from a b c d show ?thesis by blast
qed

section \<open>sendMessageToServer\<close>

text \<open>
  Claim C3 says that \<^verbatim>\<open>sendMessageToServer\<close> returns Delivered for a registered name
  and NotFound for any other. The function returns nothing: sent to the registered
  \<^verbatim>\<open>Zone1\<close> and to the absent \<^verbatim>\<open>Unknown\<close>, the same message gives the same value,
  \<^verbatim>\<open>undefined\<close>.
\<close>

theorem relay_returns_undefined_both_ways:
  "getConnectedServerNames (run (Some ''s3cret'')
       [Connection 1,
        Message 1 (Envelope (Prim (Num 1)) (Fields [(''name'', Str ''Zone1''), (''token'', Str ''s3cret'')]))])
     = [Str ''Zone1'']
   \<and> fst (sendMessageToServer (Str ''Zone1'')
        (Obj [(''type'', Prim (Str ''USER_CONNECTED'')),
              (''data'', Obj [(''username'', Prim (Str ''bob'')), (''token'', Prim (Str ''t''))])])
        (run (Some ''s3cret'')
          [Connection 1,
           Message 1 (Envelope (Prim (Num 1)) (Fields [(''name'', Str ''Zone1''), (''token'', Str ''s3cret'')]))]))
     = Undefined
   \<and> fst (sendMessageToServer (Str ''Unknown'')
        (Obj [(''type'', Prim (Str ''USER_CONNECTED'')),
              (''data'', Obj [(''username'', Prim (Str ''bob'')), (''token'', Prim (Str ''t''))])])
        (run (Some ''s3cret'')
          [Connection 1,
           Message 1 (Envelope (Prim (Num 1)) (Fields [(''name'', Str ''Zone1''), (''token'', Str ''s3cret'')]))]))
     = Undefined"
  by (simp add: hub_eval)

text \<open>
  Claim C3, amended. \<^verbatim>\<open>sendMessageToServer\<close> raises nothing and returns
  \<^verbatim>\<open>undefined\<close>, whether the name is registered or not, and leaves the map and the
  contexts as they are. For a name that is not registered it makes no call on any
  connection and logs a warning; for a registered name it sends the message on the
  connection the map holds for the name, and on no other, and logs it.
\<close>

theorem relay_sends_or_warns:
  assumes "sendMessageToServer name msg h = (r, h')"
  shows "r = Undefined
       \<and> connectedServers h' = connectedServers h
       \<and> contexts h' = contexts h
       \<and> (name \<notin> set (getConnectedServerNames h) \<longrightarrow>
            calls h' = calls h
            \<and> logs h' = logs h @
                [(warn, cross_mark @ '' No se pudo enviar: GameServer '' @ quote @ ToString name
                        @ quote @ '' no encontrado'', NoMeta)])
       \<and> (name \<in> set (getConnectedServerNames h) \<longrightarrow>
            (\<exists>ws. Map_get (connectedServers h) name = Some ws
                 \<and> calls h' = (calls h)(ws := calls h ws @ [Send msg]))
            \<and> logs h' = logs h @
                [(info, outbox @ '' Mensaje enviado a '' @ quote @ ToString name @ quote, Msg msg)])"
proof (cases "Map_get (connectedServers h) name")
  case None
  then have "name \<notin> set (getConnectedServerNames h)"
    by (simp add: getConnectedServerNames_def Map_get_None_iff)
  with None assms show ?thesis
    by (auto simp: sendMessageToServer_def logger_def)
next
  case (Some ws)
  then have "name \<in> set (getConnectedServerNames h)"
    using Map_get_None_iff [of "connectedServers h" name]
    by (simp add: getConnectedServerNames_def)
  with Some assms show ?thesis
    by (auto simp: sendMessageToServer_def logger_def ws_send_def)
qed

theorem relay_sends_or_warns_witness:
  "sendMessageToServer (Str ''Unknown'') (Prim (Str ''hello'')) hub_init
     = (Undefined, hub_init\<lparr>logs :=
          [(warn, cross_mark @ '' No se pudo enviar: GameServer '' @ quote @ ''Unknown''
                  @ quote @ '' no encontrado'', NoMeta)]\<rparr>)
   \<and> calls (snd (sendMessageToServer (Str ''Unknown'') (Prim (Str ''hello'')) hub_init)) = calls hub_init
   \<and> calls (snd (sendMessageToServer (Str ''Zone1'') (Prim (Str ''hello''))
        (hub_init\<lparr>connectedServers := [(Str ''Zone1'', 1)]\<rparr>))) 1 = [Send (Prim (Str ''hello''))]"
  using relay_sends_or_warns [of "Str ''Unknown''" "Prim (Str ''hello'')" hub_init Undefined
      "hub_init\<lparr>logs :=
          [(warn, cross_mark @ '' No se pudo enviar: GameServer '' @ quote @ ''Unknown''
                  @ quote @ '' no encontrado'', NoMeta)]\<rparr>"]
  by (simp add: hub_eval)

section \<open>Authentication\<close>

text \<open>
  Claim C4. A \<^verbatim>\<open>SERVER_CONNECT\<close> (type 1) that carries a name and a token equal to the
  configured secret leaves the session authenticated under that name; the map sends the
  name to this connection, replacing in place the entry the name had before, if any, and
  leaving every other entry alone; \<^verbatim>\<open>getConnectedServerNames()\<close> then lists the name.
\<close>

theorem server_connect_registers:
  assumes "s \<noteq> []" and "t = Prim (Num 1) \<or> t = Prim (Str ''1'')"
    and "get d ''name'' = name" and "truthy name" and "get d ''token'' = Str s"
    and "h' = on_message (Some s) ws (Envelope t d) h"
  shows "contexts h' ws = \<lparr>serverName = name, authenticated = True\<rparr>
       \<and> Map_get (connectedServers h') name = Some ws
       \<and> name \<in> set (getConnectedServerNames h')
       \<and> getConnectedServerNames h' =
           (if name \<in> set (getConnectedServerNames h) then getConnectedServerNames h
            else getConnectedServerNames h @ [name])
       \<and> (\<forall>k. k \<noteq> name \<longrightarrow> Map_get (connectedServers h') k = Map_get (connectedServers h) k)"
proof -
  have "isValidToken (Some s) (get d ''token'') = Inr True"
    using assms by (simp add: isValidToken_True)
  from handleServerConnect_accept [OF this, of ws h] assms
  have "connectedServers h' = Map_set name ws (connectedServers h)"
    and "contexts h' = (contexts h)(ws := \<lparr>serverName = name, authenticated = True\<rparr>)"
    by (auto simp: on_message_SERVER_CONNECT)
  then show ?thesis
    by (simp add: getConnectedServerNames_def Map_get_set Map_keys_Map_set)
qed

theorem server_connect_registers_witness:
  "contexts (on_message (Some ''s3cret'') 7 (Envelope (Prim (Num 1))
       (Fields [(''name'', Str ''Zone1''), (''token'', Str ''s3cret'')])) hub_init) 7
     = \<lparr>serverName = Str ''Zone1'', authenticated = True\<rparr>
   \<and> connectedServers (on_message (Some ''s3cret'') 7 (Envelope (Prim (Num 1))
       (Fields [(''name'', Str ''Zone1''), (''token'', Str ''s3cret'')])) hub_init)
     = [(Str ''Zone1'', 7)]"
  using server_connect_registers [of "''s3cret''" "Prim (Num 1)"
    "Fields [(''name'', Str ''Zone1''), (''token'', Str ''s3cret'')]" "Str ''Zone1''" _ 7 hub_init]
  by (simp add: hub_eval Map_set.simps)

text \<open>
  Claim C5. A \<^verbatim>\<open>SERVER_CONNECT\<close> with an invalid token is to be answered with the failure
  and closed. A token that is a number is invalid, yet \<^verbatim>\<open>isValidToken\<close> does not return
  false on it: \<^verbatim>\<open>Buffer.from\<close> raises. With the secret \<^verbatim>\<open>s3cret\<close> configured, the
  frame \<^verbatim>\<open>{type: 1, data: {name: "Zone1", token: 5}}\<close> on connection 1 makes no call on the
  connection, neither \<^verbatim>\<open>send\<close> nor \<^verbatim>\<open>close\<close>; the handler of the message logs the
  error, and the map stays empty.
\<close>

theorem number_token_gets_no_reply_and_no_close:
  "isValidToken (Some ''s3cret'') (Num 5) = Inl TypeError
   \<and> calls (on_message (Some ''s3cret'') 1
        (Envelope (Prim (Num 1)) (Fields [(''name'', Str ''Zone1''), (''token'', Num 5)]))
        (on_connection 1 hub_init)) 1 = []
   \<and> logs (on_message (Some ''s3cret'') 1
        (Envelope (Prim (Num 1)) (Fields [(''name'', Str ''Zone1''), (''token'', Num 5)]))
        (on_connection 1 hub_init))
       = logs (on_connection 1 hub_init)
         @ [(error, exclamation_mark @ '' Error al procesar mensaje'', ErrorMessage TypeError)]
   \<and> getConnectedServerNames (on_message (Some ''s3cret'') 1
        (Envelope (Prim (Num 1)) (Fields [(''name'', Str ''Zone1''), (''token'', Num 5)]))
        (on_connection 1 hub_init)) = []"
  by (simp add: hub_eval)

text \<open>
  The same frame with a string that is not the secret, of another length or of the same,
  or with no token, takes the failure branch of \<^verbatim>\<open>handleServerConnect\<close>: the failure is
  sent, then the connection is closed, and the map and the contexts are left as they are.
\<close>

lemma string_token_is_rejected:
  assumes "t = Prim (Num 1) \<or> t = Prim (Str ''1'')"
    and "get d ''token'' = token"
    and "\<not> truthy token \<or> env = None \<or> env = Some [] \<or> (\<exists>x. token = Str x \<and> env \<noteq> Some x)"
    and "name = (if truthy (get d ''name'') then get d ''name'' else serverName (contexts h ws))"
    and "h' = on_message env ws (Envelope t d) h"
  shows "calls h' = (calls h)
           (ws := calls h ws @
              [Send (Obj [(''type'', Prim (Str ''SERVER_CONNECT_RESULT'')),
                          (''data'', Obj [(''message'', Prim (Str (''Autenticaci'' @ o_acute
                                             @ ''n fallida para '' @ ToString name)))]),
                          (''success'', Prim (Bool False))]),
               Close])
       \<and> connectedServers h' = connectedServers h
       \<and> contexts h' = contexts h"
proof -
  have "isValidToken env (get d ''token'') = Inr False"
    using assms(2,3) isValidToken_falsy [of token env] isValidToken_unconfigured [of env token]
      isValidToken_wrong [of env]
    by auto
  from handleServerConnect_reject [OF this, of ws h] assms(1,4,5) show ?thesis
    by (auto simp: on_message_SERVER_CONNECT)
qed

text \<open>A token that is truthy and no string raises whenever a secret is configured.\<close>

lemma scalar_token_raises:
  assumes "t = Prim (Num 1) \<or> t = Prim (Str ''1'')"
    and "get d ''token'' = token" and "truthy token" and "\<forall>x. token \<noteq> Str x"
    and "env = Some s" and "s \<noteq> []"
  shows "on_message env ws (Envelope t d) h = on_error TypeError h"
proof -
  have "isValidToken env (get d ''token'') = Inl TypeError"
    using assms(2-6) by (simp add: isValidToken_raises)
  with assms(1) show ?thesis
    by (simp add: on_message_SERVER_CONNECT handleServerConnect_raise)
qed

text \<open>
  Claim C6. The bytes of the token are compared with the bytes of the secret by
  \<^verbatim>\<open>crypto.timingSafeEqual\<close> and by nothing else: every call of the comparator is on
  two buffers of the same length; when the lengths differ the answer is false and the
  comparator has not been called; when they agree the answer is the comparator's; and a
  token is accepted only after a call of the comparator. The RangeError that the
  comparator has for buffers of different lengths is never raised.
\<close>

theorem token_comparison_guarded:
  "(\<forall>(a, b) \<in> set (snd (isValidToken_traced env token)). length a = length b)
   \<and> (length t \<noteq> length s \<longrightarrow> isValidToken_traced (Some s) (Str t) = (Inr False, []))
   \<and> (length t = length s \<and> t \<noteq> [] \<longrightarrow>
        isValidToken_traced (Some s) (Str t) = (timingSafeEqual t s, [(t, s)])
        \<and> timingSafeEqual t s = Inr (t = s))
   \<and> (isValidToken env token = Inr True \<longrightarrow> snd (isValidToken_traced env token) \<noteq> [])
   \<and> isValidToken env token \<noteq> Inl RangeError"
proof -
  have calls: "\<forall>(a, b) \<in> set (snd (isValidToken_traced env token)). length a = length b"
    by (cases token; cases env)
       (auto simp: isValidToken_traced_def Buffer_from_def)
  have unequal: "length t \<noteq> length s \<longrightarrow> isValidToken_traced (Some s) (Str t) = (Inr False, [])"
    by (auto simp: isValidToken_traced_def Buffer_from_def)
  have equal: "length t = length s \<and> t \<noteq> [] \<longrightarrow>
        isValidToken_traced (Some s) (Str t) = (timingSafeEqual t s, [(t, s)])
        \<and> timingSafeEqual t s = Inr (t = s)"
    by (auto simp: isValidToken_traced_def Buffer_from_def timingSafeEqual_def)
  have accepted: "isValidToken env token = Inr True \<longrightarrow> snd (isValidToken_traced env token) \<noteq> []"
    by (cases token; cases env)
       (auto simp: isValidToken_def isValidToken_traced_def Buffer_from_def)
  have range: "isValidToken env token \<noteq> Inl RangeError"
    using isValidToken_raises [of env token RangeError] by simp
  from calls unequal equal accepted range show ?thesis by blast
qed

theorem token_comparison_guarded_witness:
  "isValidToken_traced (Some ''s3cret'') (Str ''s3cre'') = (Inr False, [])
   \<and> isValidToken_traced (Some ''s3cret'') (Str ''s3creT'') = (Inr False, [(''s3creT'', ''s3cret'')])
   \<and> isValidToken_traced (Some ''s3cret'') (Str ''s3cret'') = (Inr True, [(''s3cret'', ''s3cret'')])"
  using token_comparison_guarded [of "Some ''s3cret''" "Str ''s3cret''" "''s3cre''" "''s3cret''"]
    token_comparison_guarded [of "Some ''s3cret''" "Str ''s3cret''" "''s3creT''" "''s3cret''"]
    token_comparison_guarded [of "Some ''s3cret''" "Str ''s3cret''" "''s3cret''" "''s3cret''"]
  by (simp add: timingSafeEqual_def)

text \<open>
  Claim C9. \<^verbatim>\<open>isValidToken\<close> returns false when \<^verbatim>\<open>GAME_SERVER_TOKEN\<close> is unset or
  empty and when the token is missing or empty (or falsy in any other way), an empty token
  against an empty secret included. So while the secret is not configured no message changes
  the map of connected servers, and every run of the hub leaves it empty.
\<close>

theorem no_registration_without_secret:
  "(env = None \<or> env = Some [] \<or> \<not> truthy token \<longrightarrow> isValidToken env token = Inr False)
   \<and> (env = None \<or> env = Some [] \<longrightarrow>
        connectedServers (on_message env ws msg h) = connectedServers h
        \<and> getConnectedServerNames (run env evs) = [])"
  using isValidToken_unconfigured [of env token] isValidToken_falsy [of token env]
    connectedServers_on_message_unconfigured [of env ws msg h] run_unconfigured [of env evs]
  by (auto simp: getConnectedServerNames_def Map_keys_def)

theorem no_registration_without_secret_witness:
  "isValidToken (Some []) (Str []) = Inr False
   \<and> isValidToken None (Str ''s3cret'') = Inr False
   \<and> isValidToken (Some ''s3cret'') Undefined = Inr False
   \<and> getConnectedServerNames (run (Some [])
        [Connection 1,
         Message 1 (Envelope (Prim (Num 1)) (Fields [(''name'', Str ''Zone1''), (''token'', Str [])]))])
       = []"
  using no_registration_without_secret [of "Some []" "Str []"]
    no_registration_without_secret [of None "Str ''s3cret''"]
    no_registration_without_secret [of "Some ''s3cret''" Undefined]
    no_registration_without_secret [of "Some []" Undefined _ _ _
      "[Connection 1,
        Message 1 (Envelope (Prim (Num 1)) (Fields [(''name'', Str ''Zone1''), (''token'', Str [])]))]"]
  by simp

section \<open>The replies\<close>









end
